theory Spec2Isabelle
  imports
    Main
    "HOL-Library.Word"
    "HOL-Library.Sublist"
    "HOL-Library.Char_ord"
    "HOL-Library.List_Lexorder"
begin

section \<open>Errors of package trace\<close>

text \<open>
  The Go sources report failures through \<^verbatim>\<open>github.com/gravitational/trace\<close>:
  \<^verbatim>\<open>trace.BadParameter\<close>, \<^verbatim>\<open>trace.NotFound\<close> and \<^verbatim>\<open>trace.AccessDenied\<close>
  build an error of that kind from a formatted message, \<^verbatim>\<open>trace.Wrap(err)\<close> keeps the
  error it is given, and \<^verbatim>\<open>trace.Wrap(err, msg)\<close> keeps it under one more message.
  An error that comes out of another library (crypto/tls, x/crypto/ssh, the auth
  service) has no trace kind: it is \<open>Foreign\<close> with its text.
\<close>

datatype error =
    BadParameter string
  | NotFound string
  | AccessDenied string
  | Foreign string
  | Annotated string error

fun IsBadParameter :: "error \<Rightarrow> bool" where
  "IsBadParameter (BadParameter _) = True"
| "IsBadParameter (Annotated _ e) = IsBadParameter e"
| "IsBadParameter _ = False"

fun IsAccessDenied :: "error \<Rightarrow> bool" where
  "IsAccessDenied (AccessDenied _) = True"
| "IsAccessDenied (Annotated _ e) = IsAccessDenied e"
| "IsAccessDenied _ = False"

text \<open>\<^verbatim>\<open>err.Error()\<close>: the message the error carries (the innermost one under wraps).\<close>

fun Error :: "error \<Rightarrow> string" where
  "Error (BadParameter m) = m"
| "Error (NotFound m) = m"
| "Error (AccessDenied m) = m"
| "Error (Foreign m) = m"
| "Error (Annotated _ e) = Error e"

text \<open>
  The verb \<^verbatim>\<open>%q\<close> on a string, and a name written between double quotes inside a
  Go raw string literal: the text between two \<^verbatim>\<open>"\<close>. Go escapes a quote, a
  backslash and a non-printing character inside the quotes and the model does not, so
  the two agree on the strings that have none, as every join-method constant and every
  parameter name is.
\<close>

definition quoted :: "string \<Rightarrow> string" where
  "quoted s = CHR 0x22 # s @ [CHR 0x22]"

text \<open>\<^verbatim>\<open>strings.Contains(s, sub)\<close>.\<close>

definition Contains :: "string \<Rightarrow> string \<Rightarrow> bool" where
  "Contains s sub = sublist sub s"

section \<open>Provisioning tokens (package types)\<close>

type_synonym JoinMethod = string

definition JoinMethodUnspecified :: JoinMethod where
  "JoinMethodUnspecified = ''''"

definition JoinMethodToken :: JoinMethod where
  "JoinMethodToken = ''token''"

definition JoinMethodEC2 :: JoinMethod where
  "JoinMethodEC2 = ''ec2''"

definition JoinMethodIAM :: JoinMethod where
  "JoinMethodIAM = ''iam''"

record TokenRule =
  AWSAccount :: string
  AWSRegions :: "string list"
  AWSRole :: string
  AWSARN :: string

text \<open>\<^verbatim>\<open>Duration\<close> is an int64 of nanoseconds.\<close>

type_synonym Duration = "64 word"

definition Minute :: Duration where
  "Minute = 60000000000"

record ProvisionTokenSpecV2 =
  Roles :: "string list"
  Allow :: "TokenRule list"
  AWSIIDTTL :: Duration
  JoinMethod :: JoinMethod

record 'm ProvisionTokenV2 =
  Kind :: string
  SubKind :: string
  Version :: string
  Metadata :: 'm
  Spec :: ProvisionTokenSpecV2

text \<open>
  What \<^verbatim>\<open>CheckAndSetDefaults\<close> uses of package types that is declared in other
  files: the constants \<^verbatim>\<open>KindToken\<close> and \<^verbatim>\<open>V2\<close>, the metadata's own
  \<^verbatim>\<open>CheckAndSetDefaults\<close> (it updates the metadata or fails) and
  \<^verbatim>\<open>SystemRoles.Check\<close>. They are parameters of the model; \<open>'m\<close> is the type
  of the metadata.
\<close>

record 'm types_pkg =
  KindToken :: string
  V2 :: string
  Metadata_CheckAndSetDefaults :: "'m \<Rightarrow> error + 'm"
  SystemRoles_Check :: "string list \<Rightarrow> error option"

definition setStaticFields :: "'m types_pkg \<Rightarrow> 'm ProvisionTokenV2 \<Rightarrow> 'm ProvisionTokenV2" where
  "setStaticFields env p = p\<lparr>Kind := KindToken env, Version := V2 env\<rparr>"

text \<open>The loop over the allow rules of an ec2 token: the first violation is returned.\<close>

fun checkEC2Rules :: "TokenRule list \<Rightarrow> error option" where
  "checkEC2Rules [] = None"
| "checkEC2Rules (allowRule # rest) =
     (if AWSARN allowRule \<noteq> '''' then
        Some (BadParameter (''the '' @ quoted JoinMethodEC2 @ '' join method does not support the ''
                @ quoted ''aws_arn'' @ '' parameter''))
      else if AWSAccount allowRule = '''' \<and> AWSRole allowRule = '''' then
        Some (BadParameter (''allow rule for '' @ quoted JoinMethodEC2 @ '' join method must set ''
                @ quoted ''aws_account'' @ '' or '' @ quoted ''aws_role''))
      else checkEC2Rules rest)"

text \<open>
  The loop over the allow rules of an iam token. The last message is formatted with
  \<^verbatim>\<open>JoinMethodEC2\<close>, as the source has it.
\<close>

fun checkIAMRules :: "TokenRule list \<Rightarrow> error option" where
  "checkIAMRules [] = None"
| "checkIAMRules (allowRule # rest) =
     (if AWSRole allowRule \<noteq> '''' then
        Some (BadParameter (''the '' @ quoted JoinMethodIAM @ '' join method does not support the ''
                @ quoted ''aws_role'' @ '' parameter''))
      else if length (AWSRegions allowRule) \<noteq> 0 then
        Some (BadParameter (''the '' @ quoted JoinMethodIAM @ '' join method does not support the ''
                @ quoted ''aws_regions'' @ '' parameter''))
      else if AWSAccount allowRule = '''' \<and> AWSARN allowRule = '''' then
        Some (BadParameter (''allow rule for '' @ quoted JoinMethodEC2 @ '' join method must set ''
                @ quoted ''aws_account'' @ '' or '' @ quoted ''aws_arn''))
      else checkIAMRules rest)"

text \<open>The defaulting of an unset join method.\<close>

definition defaultJoinMethod :: "'m ProvisionTokenV2 \<Rightarrow> 'm ProvisionTokenV2" where
  "defaultJoinMethod p =
     (if JoinMethod (Spec p) = JoinMethodUnspecified then
        (if length (Allow (Spec p)) > 0
         then p\<lparr>Spec := (Spec p)\<lparr>JoinMethod := JoinMethodEC2\<rparr>\<rparr>
         else p\<lparr>Spec := (Spec p)\<lparr>JoinMethod := JoinMethodToken\<rparr>\<rparr>)
      else p)"

text \<open>The \<^verbatim>\<open>switch p.Spec.JoinMethod\<close>, on the token with its join method defaulted.\<close>

definition checkJoinMethod :: "'m ProvisionTokenV2 \<Rightarrow> error option \<times> 'm ProvisionTokenV2" where
  "checkJoinMethod p =
     (let hasAllowRules = length (Allow (Spec p)) > 0 in
      if JoinMethod (Spec p) = JoinMethodToken then
        (if hasAllowRules then
           (Some (BadParameter (''allow rules are not compatible with the '' @ quoted JoinMethodToken
                    @ '' join method'')), p)
         else (None, p))
      else if JoinMethod (Spec p) = JoinMethodEC2 then
        (if \<not> hasAllowRules then
           (Some (BadParameter (''the '' @ quoted JoinMethodEC2
                    @ '' join method requires defined token allow rules'')), p)
         else
           (case checkEC2Rules (Allow (Spec p)) of
              Some e \<Rightarrow> (Some e, p)
            | None \<Rightarrow>
                (if AWSIIDTTL (Spec p) = 0
                 then (None, p\<lparr>Spec := (Spec p)\<lparr>AWSIIDTTL := 5 * Minute\<rparr>\<rparr>)
                 else (None, p))))
      else if JoinMethod (Spec p) = JoinMethodIAM then
        (if \<not> hasAllowRules then
           (Some (BadParameter (''the '' @ quoted JoinMethodIAM
                    @ '' join method requires defined token allow rules'')), p)
         else
           (case checkIAMRules (Allow (Spec p)) of
              Some e \<Rightarrow> (Some e, p)
            | None \<Rightarrow> (None, p)))
      else
        (Some (BadParameter (''unknown join method '' @ quoted (JoinMethod (Spec p)))), p))"

text \<open>
  \<^verbatim>\<open>(*ProvisionTokenV2).CheckAndSetDefaults\<close>. The method updates the token in
  place and returns an error or nil: the model returns the error (\<open>None\<close> for nil)
  with the token as the call leaves it, also when the call fails.
\<close>

definition CheckAndSetDefaults ::
  "'m types_pkg \<Rightarrow> 'm ProvisionTokenV2 \<Rightarrow> error option \<times> 'm ProvisionTokenV2" where
  "CheckAndSetDefaults env p0 =
     (let p = setStaticFields env p0 in
      case Metadata_CheckAndSetDefaults env (Metadata p) of
        Inl err \<Rightarrow> (Some err, p)
      | Inr m \<Rightarrow>
          (let p = p\<lparr>Metadata := m\<rparr> in
           if length (Roles (Spec p)) = 0 then
             (Some (BadParameter ''provisioning token is missing roles''), p)
           else
             (case SystemRoles_Check env (Roles (Spec p)) of
                Some err \<Rightarrow> (Some err, p)
              | None \<Rightarrow> checkJoinMethod (defaultJoinMethod p))))"

text \<open>
  The join method a token carries once an unset one has been defaulted, in the words of
  the specification: ec2 when allow rules are present, token otherwise.
\<close>

definition methodAfterDefault :: "ProvisionTokenSpecV2 \<Rightarrow> JoinMethod" where
  "methodAfterDefault s =
     (if JoinMethod s = '''' then (if Allow s = [] then ''token'' else ''ec2'') else JoinMethod s)"

text \<open>
  The conditions under which the specification says the call succeeds, as it lists them:
  roles present and valid, no allow rule for the token method, at least one for ec2 and
  iam, and the shape of each ec2 and iam rule.
\<close>

definition listedTokenConditions :: "'m types_pkg \<Rightarrow> 'm ProvisionTokenV2 \<Rightarrow> bool" where
  "listedTokenConditions env p =
     (Roles (Spec p) \<noteq> [] \<and> SystemRoles_Check env (Roles (Spec p)) = None \<and>
      (methodAfterDefault (Spec p) = ''token'' \<longrightarrow> Allow (Spec p) = []) \<and>
      (methodAfterDefault (Spec p) = ''ec2'' \<or> methodAfterDefault (Spec p) = ''iam''
         \<longrightarrow> Allow (Spec p) \<noteq> []) \<and>
      (methodAfterDefault (Spec p) = ''ec2'' \<longrightarrow>
         (\<forall>r\<in>set (Allow (Spec p)). (AWSAccount r \<noteq> '''' \<or> AWSRole r \<noteq> '''') \<and> AWSARN r = '''')) \<and>
      (methodAfterDefault (Spec p) = ''iam'' \<longrightarrow>
         (\<forall>r\<in>set (Allow (Spec p)). (AWSAccount r \<noteq> '''' \<or> AWSARN r \<noteq> '''') \<and>
            AWSRole r = '''' \<and> AWSRegions r = [])))"

text \<open>
  A package environment to run the model on: the metadata is the token's name, which
  must not be empty, and three role names are known.
\<close>

definition example_types_pkg :: "string types_pkg" where
  "example_types_pkg =
     \<lparr>KindToken = ''token'', V2 = ''v2'',
      Metadata_CheckAndSetDefaults =
        (\<lambda>name. if name = '''' then Inl (BadParameter ''missing parameter Name'') else Inr name),
      SystemRoles_Check =
        (\<lambda>rs. if list_all (\<lambda>r. r \<in> set [''Node'', ''Proxy'', ''Auth'']) rs then None
              else Some (BadParameter ''role is not registered''))\<rparr>"

definition example_token :: "JoinMethod \<Rightarrow> TokenRule list \<Rightarrow> string ProvisionTokenV2" where
  "example_token method rules =
     \<lparr>Kind = '''', SubKind = '''', Version = '''', Metadata = ''join-token'',
      Spec = \<lparr>Roles = [''Node''], Allow = rules, AWSIIDTTL = 0, JoinMethod = method\<rparr>\<rparr>"

section \<open>Formatting integers\<close>

text \<open>The verbs \<^verbatim>\<open>%d\<close> and \<^verbatim>\<open>%v\<close> on an integer: its decimal digits.\<close>

definition digit :: "nat \<Rightarrow> char" where
  "digit d = char_of (48 + d)"

function decimal :: "nat \<Rightarrow> string" where
  "decimal n = (if n < 10 then [digit n] else decimal (n div 10) @ [digit (n mod 10)])"
  by pat_completeness auto
termination
  by (relation "measure id") auto

definition fmt_d :: "int \<Rightarrow> string" where
  "fmt_d i = (if i < 0 then CHR ''-'' # decimal (nat (- i)) else decimal (nat i))"

section \<open>The SSH server (package regular): admission of connections and channels\<close>

text \<open>
  \<^verbatim>\<open>Server.Component()\<close> answers \<^verbatim>\<open>teleport.ComponentProxy\<close> in proxy mode and
  \<^verbatim>\<open>teleport.ComponentNode\<close> otherwise; the two constants are the two roles.
\<close>

datatype Component = ComponentNode | ComponentProxy


datatype RejectionReason = Prohibited | ConnectionFailed | UnknownChannelType | ResourceShortage

text \<open>
  String constants of packages teleport, events and types that the two handlers write
  into events and requests or look for in an error text. They are declared in files
  that are not among the sources, so the model takes them as parameters.
\<close>

record teleport_consts =
  MaxLeases :: string
  SessionRejectedEvent :: string
  SessionRejectedCode :: string
  EventProtocolSSH :: string
  SessionRejectedReasonMaxSessions :: string
  SemaphoreKindConnection :: string

text \<open>\<^verbatim>\<open>apievents.SessionReject\<close>, with the fields the handlers fill.\<close>

record SessionReject =
  Type :: string
  Code :: string
  UserMetadata :: string
  Protocol :: string
  LocalAddr :: string
  RemoteAddr :: string
  ServerID :: string
  ServerNamespace :: string
  Reason :: string
  Maximum :: "64 word"

record AccessChecker =
  LockingMode :: "string \<Rightarrow> string"
  MaxConnections :: "64 word"
  MaxSessions :: "64 word"

record IdentityContext =
  TeleportUser :: string
  AccessChecker :: AccessChecker
  GetUserMetadata :: string

text \<open>
  \<^verbatim>\<open>sshutils.ConnectionContext\<close>: the addresses of its \<^verbatim>\<open>ServerConn\<close> and the
  number of session channels counted on the connection, which \<^verbatim>\<open>IncrSessions\<close> keeps.
\<close>

record ConnectionContext =
  ServerConn_LocalAddr :: string
  ServerConn_RemoteAddr :: string
  sessions :: "64 word"

record Server =
  proxyMode :: bool
  uuid :: string
  namespace :: string

definition Component :: "Server \<Rightarrow> Component" where
  "Component s = (if proxyMode s then ComponentProxy else ComponentNode)"

definition GetNamespace :: "Server \<Rightarrow> string" where
  "GetNamespace s = namespace s"

record SemaphoreLockConfig =
  Expiry :: Duration
  Params_SemaphoreKind :: string
  Params_SemaphoreName :: string
  Params_MaxLeases :: "64 word"
  Params_Holder :: string

text \<open>
  What one call of \<^verbatim>\<open>HandleNewConn\<close> gets from its collaborators: the identity
  context of the connection, the cluster's locking mode (\<^verbatim>\<open>GetAuthPreference\<close> then
  \<^verbatim>\<open>GetLockingMode\<close>), the lock targets, the lock watcher's verdict, the session
  control timeout (\<^verbatim>\<open>GetClusterNetworkingConfig\<close> then
  \<^verbatim>\<open>GetSessionControlTimeout\<close>) and the auth service's answer to a semaphore
  request. \<open>'l\<close> is the type of a semaphore lease.
\<close>

record 'l conn_env =
  CreateIdentityContext :: "error + IdentityContext"
  GetLockingMode :: "error + string"
  ComputeLockTargets :: "Server \<Rightarrow> IdentityContext \<Rightarrow> error + string list"
  CheckLockInForce :: "string \<Rightarrow> string list \<Rightarrow> error option"
  GetSessionControlTimeout :: "error + Duration"
  AcquireSemaphoreLock :: "SemaphoreLockConfig \<Rightarrow> error + 'l"

text \<open>
  What the handlers do to the outside, in the order they do it: audit events, the
  metric, the request to the semaphore service, the goroutine that closes the
  connection when the lease is lost, and what happens to a new channel. Log lines are
  left out.
\<close>

datatype 'l effect =
    EmitAuditEvent SessionReject
  | Inc_userSessionLimitHitCount
  | Call_AcquireSemaphoreLock SemaphoreLockConfig
  | Go_closeOnLeaseLoss 'l
  | Reject RejectionReason string
  | Accept
  | CloseChannel
  | Go_handleProxyJump
  | Go_handleSessionRequests bool
  | Go_handleDirectTCPIPRequest

text \<open>The \<^verbatim>\<open>SessionReject\<close> event both handlers start from.\<close>

definition rejectEvent ::
  "teleport_consts \<Rightarrow> Server \<Rightarrow> IdentityContext \<Rightarrow> ConnectionContext \<Rightarrow> SessionReject" where
  "rejectEvent K s identityContext ccx =
     \<lparr>Type = SessionRejectedEvent K, Code = SessionRejectedCode K,
      UserMetadata = GetUserMetadata identityContext,
      Protocol = EventProtocolSSH K,
      LocalAddr = ServerConn_LocalAddr ccx, RemoteAddr = ServerConn_RemoteAddr ccx,
      ServerID = uuid s, ServerNamespace = GetNamespace s,
      Reason = '''', Maximum = 0\<rparr>"

text \<open>
  \<^verbatim>\<open>Server.HandleNewConn\<close>: the error it returns (\<open>None\<close> for nil) and its effects.
  The context it returns is always the one it was given.
\<close>

definition HandleNewConn ::
  "teleport_consts \<Rightarrow> Server \<Rightarrow> 'l conn_env \<Rightarrow> ConnectionContext \<Rightarrow> error option \<times> 'l effect list" where
  "HandleNewConn K s env ccx =
     (case CreateIdentityContext env of
        Inl err \<Rightarrow> (Some err, [])
      | Inr identityContext \<Rightarrow>
     (case GetLockingMode env of
        Inl err \<Rightarrow> (Some err, [])
      | Inr authPrefMode \<Rightarrow>
     (let lockingMode = LockingMode (AccessChecker identityContext) authPrefMode;
          event = rejectEvent K s identityContext ccx
      in
      case ComputeLockTargets env s identityContext of
        Inl err \<Rightarrow> (Some err, [])
      | Inr lockTargets \<Rightarrow>
     (case CheckLockInForce env lockingMode lockTargets of
        Some lockErr \<Rightarrow> (Some lockErr, [EmitAuditEvent (event\<lparr>Reason := Error lockErr\<rparr>)])
      | None \<Rightarrow>
     (if Component s \<noteq> ComponentNode then (None, [])
      else
        let maxConnections = MaxConnections (AccessChecker identityContext) in
        if maxConnections = 0 then (None, [])
        else
     (case GetSessionControlTimeout env of
        Inl err \<Rightarrow> (Some err, [])
      | Inr timeout \<Rightarrow>
     (let cfg = \<lparr>Expiry = timeout,
                 Params_SemaphoreKind = SemaphoreKindConnection K,
                 Params_SemaphoreName = TeleportUser identityContext,
                 Params_MaxLeases = maxConnections,
                 Params_Holder = uuid s\<rparr>
      in
      case AcquireSemaphoreLock env cfg of
        Inl err \<Rightarrow>
          (if Contains (Error err) (MaxLeases K) then
             (Some (AccessDenied (''too many concurrent ssh connections for user ''
                      @ quoted (TeleportUser identityContext)
                      @ '' (max='' @ fmt_d (sint maxConnections) @ '')'')),
              [Call_AcquireSemaphoreLock cfg, Inc_userSessionLimitHitCount,
               EmitAuditEvent (event\<lparr>Reason := SessionRejectedEvent K, Maximum := maxConnections\<rparr>)])
           else (Some err, [Call_AcquireSemaphoreLock cfg]))
      | Inr semLock \<Rightarrow> (None, [Call_AcquireSemaphoreLock cfg, Go_closeOnLeaseLoss semLock]))))))))"





section \<open>Client keys (package client)\<close>

type_synonym bytes = string

text \<open>
  \<^verbatim>\<open>identityfile.IdentityFile\<close> as \<^verbatim>\<open>KeyFromIdentityFile\<close> reads it. The SSH
  certificate is a slice that \<^verbatim>\<open>Key.SSHCert\<close> later compares with nil, so it is
  optional; the other slices are only measured or handed on.
\<close>

record IdentityFile =
  PrivateKey :: bytes
  Certs_SSH :: "bytes option"
  Certs_TLS :: bytes
  CACerts_SSH :: "bytes list"
  CACerts_TLS :: "bytes list"

record TrustedCerts =
  TLSCertificates :: "bytes list"
  HostCertificates :: "bytes list"

record Key =
  ProxyHost :: string
  Username :: string
  ClusterName :: string
  Priv :: bytes
  Pub :: bytes
  Cert :: "bytes option"
  TLSCert :: bytes
  KubeTLSCerts :: "string \<rightharpoonup> bytes"
  DBTLSCerts :: "string \<rightharpoonup> bytes"
  AppTLSCerts :: "string \<rightharpoonup> bytes"
  TrustedCA :: "TrustedCerts list"

text \<open>\<^verbatim>\<open>ssh.Certificate\<close>, with the fields the key's methods read.\<close>

record Certificate =
  KeyId :: string
  ValidPrincipals :: "string list"
  ValidBefore :: "64 word"

datatype HostKeyCallback = TrustedCAsCallback | KeyStoreCertChecker string

record ClientConfig =
  User :: string
  HostKeyCallback :: HostKeyCallback

text \<open>
  The libraries the package calls (the identity file reader, x/crypto/ssh, crypto/tls,
  crypto/x509, api/utils/sshutils, lib/utils): parameters of the model. \<open>'k\<close> is a
  parsed private key; a signer is represented by its marshalled public key. Whether
  \<^verbatim>\<open>AppendCertsFromPEM\<close> finds a certificate depends on the PEM text alone.
\<close>

record 'k client_deps =
  ReadIdentityFile :: "string \<Rightarrow> error + IdentityFile"
  ParseRawPrivateKey :: "bytes \<Rightarrow> error + 'k"
  NewSignerFromKey :: "'k \<Rightarrow> error + bytes"
  X509KeyPair :: "bytes \<Rightarrow> bytes \<Rightarrow> error option"
  AppendCertsFromPEM :: "bytes \<Rightarrow> bool"
  ParseKnownHosts :: "bytes \<Rightarrow> error option"
  ParseCertificate :: "bytes \<Rightarrow> error + Certificate"
  SSHClientConfig :: "bytes option \<Rightarrow> bytes \<Rightarrow> bytes list \<Rightarrow> error + ClientConfig"
  CertChecker_CheckCert :: "bool \<Rightarrow> string \<Rightarrow> Certificate \<Rightarrow> error option"
  isFIPS :: bool

text \<open>The loop over the TLS CA certificates; \<open>i\<close> is the index of the first one left.\<close>

fun checkTLSCAs :: "'k client_deps \<Rightarrow> nat \<Rightarrow> bytes list \<Rightarrow> error option" where
  "checkTLSCAs D i [] = None"
| "checkTLSCAs D i (certPEM # rest) =
     (if \<not> AppendCertsFromPEM D certPEM then
        Some (BadParameter (''identity file contains invalid TLS CA cert (#''
                @ fmt_d (int i + 1) @ '')''))
      else checkTLSCAs D (Suc i) rest)"

definition caHint :: string where
  "caHint = ''; make sure this identity file was generated by '' @ [CHR 0x27] @ ''tsh login -o''
     @ [CHR 0x27] @ '' or '' @ [CHR 0x27] @ ''tctl auth sign --format=file'' @ [CHR 0x27]
     @ '' or try generating it again''"

text \<open>The loop over the SSH CA lines.\<close>

fun checkSSHCAs :: "'k client_deps \<Rightarrow> bytes list \<Rightarrow> error option" where
  "checkSSHCAs D [] = None"
| "checkSSHCAs D (caCert # rest) =
     (case ParseKnownHosts D caCert of
        Some err \<Rightarrow> Some (BadParameter (''CA cert parsing error: '' @ Error err @ caHint))
      | None \<Rightarrow> checkSSHCAs D rest)"

text \<open>\<^verbatim>\<open>KeyFromIdentityFile\<close>.\<close>

definition KeyFromIdentityFile :: "'k client_deps \<Rightarrow> string \<Rightarrow> error + Key" where
  "KeyFromIdentityFile D path =
     (case ReadIdentityFile D path of
        Inl err \<Rightarrow> Inl (Annotated ''failed to parse identity file'' err)
      | Inr ident \<Rightarrow>
     (case ParseRawPrivateKey D (PrivateKey ident) of
        Inl err \<Rightarrow> Inl (BadParameter (''invalid identity: '' @ path @ ''. '' @ Error err))
      | Inr privKey \<Rightarrow>
     (case NewSignerFromKey D privKey of
        Inl err \<Rightarrow> Inl err
      | Inr signerPub \<Rightarrow>
     (case (if length (Certs_TLS ident) > 0
            then X509KeyPair D (Certs_TLS ident) (PrivateKey ident) else None) of
        Some err \<Rightarrow> Inl err
      | None \<Rightarrow>
     (let key = \<lparr>ProxyHost = '''', Username = '''', ClusterName = '''',
                 Priv = PrivateKey ident, Pub = signerPub,
                 Cert = Certs_SSH ident, TLSCert = Certs_TLS ident,
                 KubeTLSCerts = Map.empty, DBTLSCerts = Map.empty, AppTLSCerts = Map.empty,
                 TrustedCA = []\<rparr>
      in
      if length (CACerts_TLS ident) > 0 \<or> length (CACerts_SSH ident) > 0 then
        (case checkTLSCAs D 0 (CACerts_TLS ident) of
           Some err \<Rightarrow> Inl err
         | None \<Rightarrow>
        (case checkSSHCAs D (CACerts_SSH ident) of
           Some err \<Rightarrow> Inl err
         | None \<Rightarrow>
             Inr (key\<lparr>TrustedCA := [\<lparr>TLSCertificates = CACerts_TLS ident,
                                      HostCertificates = CACerts_SSH ident\<rparr>]\<rparr>)))
      else Inr key)))))"









section \<open>Names for the statements about the SSH server\<close>

text \<open>The semaphore request \<^verbatim>\<open>HandleNewConn\<close> builds for an identity.\<close>

definition connSemaphoreConfig ::
  "teleport_consts \<Rightarrow> Server \<Rightarrow> IdentityContext \<Rightarrow> Duration \<Rightarrow> SemaphoreLockConfig" where
  "connSemaphoreConfig K s ic timeout =
     \<lparr>Expiry = timeout,
      Params_SemaphoreKind = SemaphoreKindConnection K,
      Params_SemaphoreName = TeleportUser ic,
      Params_MaxLeases = MaxConnections (AccessChecker ic),
      Params_Holder = uuid s\<rparr>"

text \<open>
  The connection gets as far as the role test: its identity context is \<open>ic\<close>, the
  locking mode and the lock targets are computed, and no lock is in force.
\<close>

definition passesLockCheck :: "Server \<Rightarrow> 'l conn_env \<Rightarrow> IdentityContext \<Rightarrow> bool" where
  "passesLockCheck s env ic =
     (CreateIdentityContext env = Inr ic \<and>
      (\<exists>mode targets. GetLockingMode env = Inr mode \<and>
         ComputeLockTargets env s ic = Inr targets \<and>
         CheckLockInForce env (LockingMode (AccessChecker ic) mode) targets = None))"

text \<open>
  A server, an identity and collaborators to run the handlers on. The semaphore
  service of the example refuses a lease, with the text of \<open>MaxLeases\<close>, once \<open>held\<close>
  leases are out; the lock watcher reports \<open>lock\<close>.
\<close>

definition example_consts :: teleport_consts where
  "example_consts =
     \<lparr>MaxLeases = ''err-max-leases'', SessionRejectedEvent = ''session.rejected'',
      SessionRejectedCode = ''T1006W'', EventProtocolSSH = ''ssh'',
      SessionRejectedReasonMaxSessions = ''too many session channels'',
      SemaphoreKindConnection = ''connection''\<rparr>"

definition example_server :: "bool \<Rightarrow> Server" where
  "example_server proxy = \<lparr>proxyMode = proxy, uuid = ''host-1'', namespace = ''default''\<rparr>"

definition example_identity :: "64 word \<Rightarrow> 64 word \<Rightarrow> IdentityContext" where
  "example_identity maxConns maxSess =
     \<lparr>TeleportUser = ''alice'',
      AccessChecker = \<lparr>LockingMode = (\<lambda>mode. mode), MaxConnections = maxConns, MaxSessions = maxSess\<rparr>,
      GetUserMetadata = ''alice''\<rparr>"

definition example_conn_env :: "IdentityContext \<Rightarrow> error option \<Rightarrow> int \<Rightarrow> unit conn_env" where
  "example_conn_env ic lock held =
     \<lparr>CreateIdentityContext = Inr ic,
      GetLockingMode = Inr ''best_effort'',
      ComputeLockTargets = (\<lambda>s ic. Inr [TeleportUser ic, uuid s]),
      CheckLockInForce = (\<lambda>mode targets. lock),
      GetSessionControlTimeout = Inr (2 * Minute),
      AcquireSemaphoreLock =
        (\<lambda>cfg. if sint (Params_MaxLeases cfg) \<le> held
               then Inl (Foreign ''err-max-leases'') else Inr ())\<rparr>"

definition example_ccx :: "64 word \<Rightarrow> ConnectionContext" where
  "example_ccx n =
     \<lparr>ServerConn_LocalAddr = ''10.0.0.1:3022'', ServerConn_RemoteAddr = ''10.0.0.7:50000'',
      sessions = n\<rparr>"



section \<open>Names for the statements about client keys\<close>

text \<open>
  The identity file's private key parses, a signer is made of it, and the TLS
  certificate, when there is one, matches the key: \<^verbatim>\<open>KeyFromIdentityFile\<close> gets as
  far as the CA certificates.
\<close>

definition keyAndCertAccepted :: "'k client_deps \<Rightarrow> IdentityFile \<Rightarrow> bool" where
  "keyAndCertAccepted D ident =
     (\<exists>privKey signerPub.
        ParseRawPrivateKey D (PrivateKey ident) = Inr privKey \<and>
        NewSignerFromKey D privKey = Inr signerPub \<and>
        (Certs_TLS ident = [] \<or> X509KeyPair D (Certs_TLS ident) (PrivateKey ident) = None))"

text \<open>
  Libraries to run the model on. They read every path as the identity file \<open>ident\<close>,
  accept one private key, one TLS certificate for it, one CA certificate and one
  authority line, and know two SSH certificates: one for the principal alice and one
  with no principal.
\<close>

definition example_client_deps :: "IdentityFile \<Rightarrow> string client_deps" where
  "example_client_deps ident =
     \<lparr>ReadIdentityFile = (\<lambda>path. Inr ident),
      ParseRawPrivateKey =
        (\<lambda>pem. if pem = ''PRIVATE KEY'' then Inr pem else Inl (Foreign ''ssh: no key found'')),
      NewSignerFromKey = (\<lambda>key. Inr (''public key of '' @ key)),
      X509KeyPair =
        (\<lambda>cert key. if cert = ''CERTIFICATE of '' @ key then None
                    else Some (Foreign ''tls: private key does not match public key'')),
      AppendCertsFromPEM = (\<lambda>pem. pem = ''CA CERTIFICATE''),
      ParseKnownHosts =
        (\<lambda>line. if line = ''@cert-authority *.example.com ssh-rsa AAAA'' then None
                else Some (Foreign ''ssh: no key found'')),
      ParseCertificate =
        (\<lambda>raw. if raw = ''ssh certificate of alice''
                 then Inr \<lparr>KeyId = ''alice'', ValidPrincipals = [''alice''], ValidBefore = 0\<rparr>
               else if raw = ''ssh certificate without principals''
                 then Inr \<lparr>KeyId = ''alice'', ValidPrincipals = [], ValidBefore = 0\<rparr>
               else Inl (BadParameter ''not an SSH certificate'')),
      SSHClientConfig =
        (\<lambda>cert priv cas.
           case cert of
             None \<Rightarrow> Inl (BadParameter ''no SSH certificate'')
           | Some raw \<Rightarrow> Inr \<lparr>User = '''', HostKeyCallback = TrustedCAsCallback\<rparr>),
      CertChecker_CheckCert = (\<lambda>fips principal cert. None),
      isFIPS = False\<rparr>"

definition example_ident :: "bytes \<Rightarrow> bytes \<Rightarrow> bytes list \<Rightarrow> bytes list \<Rightarrow> IdentityFile" where
  "example_ident key tls tlsCAs sshCAs =
     \<lparr>PrivateKey = key, Certs_SSH = Some ''ssh certificate of alice'', Certs_TLS = tls,
      CACerts_SSH = sshCAs, CACerts_TLS = tlsCAs\<rparr>"



section \<open>The backend's event buffer (package backend)\<close>

text \<open>
  Of package backend the sources hold the test file only. The events are as the
  specification's data model gives them: an item with a key, a value and an id inside an
  event with a type; \<open>OpInvalid\<close> stands for the zero value of the type.
\<close>

datatype OpType = OpInvalid | OpInit | OpPut | OpDelete

record Item =
  ItemKey :: bytes
  ItemValue :: bytes
  ID :: "64 word"

record Event =
  EventType :: OpType
  Item :: Item

definition zeroEvent :: Event where
  "zeroEvent = \<lparr>EventType = OpInvalid, Item = \<lparr>ItemKey = [], ItemValue = [], ID = 0\<rparr>\<rparr>"

text \<open>
  Modelled from the spec: \<^verbatim>\<open>CircularBuffer\<close> (buffer.go is not among the sources).
  The specification describes a fixed-capacity ring of the most recent events, whose
  snapshot of current events is in emission order, which \<^verbatim>\<open>Clear\<close> resets to empty and
  which is inert once closed. The ring is an array of the capacity, the index of the
  oldest event and the number of events held; watchers are left out.
\<close>

record CircularBuffer =
  ring :: "Event list"
  head :: nat
  filled :: nat
  closed :: bool

text \<open>
  Modelled from the spec: \<^verbatim>\<open>NewCircularBuffer\<close> with \<^verbatim>\<open>BufferCapacity\<close> (buffer.go
  is missing): an open ring of the configured capacity that holds no event.
\<close>

definition NewCircularBuffer :: "nat \<Rightarrow> CircularBuffer" where
  "NewCircularBuffer capacity =
     \<lparr>ring = replicate capacity zeroEvent, head = 0, filled = 0, closed = False\<rparr>"

text \<open>
  Modelled from the spec: \<^verbatim>\<open>CircularBuffer.Emit\<close> (buffer.go is missing). A closed
  buffer ignores the event. An open one stores it after the newest event it holds; when
  the ring is full the event takes the place of the oldest, and the next oldest becomes
  the head.
\<close>

definition Emit :: "Event \<Rightarrow> CircularBuffer \<Rightarrow> CircularBuffer" where
  "Emit r b =
     (if closed b \<or> length (ring b) = 0 then b
      else if filled b < length (ring b) then
        b\<lparr>ring := (ring b)[(head b + filled b) mod length (ring b) := r],
          filled := filled b + 1\<rparr>
      else
        b\<lparr>ring := (ring b)[head b := r],
          head := (head b + 1) mod length (ring b)\<rparr>)"

text \<open>
  Modelled from the spec: \<^verbatim>\<open>CircularBuffer.Events\<close> (buffer.go is missing), the
  snapshot of the current events: the events held, read from the head on, around the ring.
\<close>

definition Events :: "CircularBuffer \<Rightarrow> Event list" where
  "Events b = map (\<lambda>i. ring b ! ((head b + i) mod length (ring b))) [0..<filled b]"

text \<open>
  Modelled from the spec: \<^verbatim>\<open>CircularBuffer.Clear\<close> and \<^verbatim>\<open>CircularBuffer.Close\<close>
  (buffer.go is missing): the first resets the ring to empty, the second makes the buffer
  inert for good.
\<close>

definition Clear :: "CircularBuffer \<Rightarrow> CircularBuffer" where
  "Clear b = b\<lparr>head := 0, filled := 0\<rparr>"

definition Close :: "CircularBuffer \<Rightarrow> CircularBuffer" where
  "Close b = b\<lparr>closed := True\<rparr>"

text \<open>
  The ring is well formed: it has a capacity, the head is an index of the array, no more
  events are held than fit, and the buffer is open.
\<close>

definition ringOK :: "CircularBuffer \<Rightarrow> bool" where
  "ringOK b =
     (0 < length (ring b) \<and> head b < length (ring b) \<and> filled b \<le> length (ring b) \<and>
      \<not> closed b)"

text \<open>A sequence of emissions, first to last.\<close>

definition emitAll :: "CircularBuffer \<Rightarrow> Event list \<Rightarrow> CircularBuffer" where
  "emitAll b es = foldl (\<lambda>b e. Emit e b) b es"

text \<open>
  The helpers of the test file \<^verbatim>\<open>buffer_test.go\<close>: \<^verbatim>\<open>makeIDs\<close>, \<^verbatim>\<open>toIDs\<close>,
  \<^verbatim>\<open>expectEvents\<close>, and the event \<^verbatim>\<open>Event{Item: Item{ID: n}}\<close> that the test emits.
\<close>

definition makeIDs :: "nat \<Rightarrow> 64 word list" where
  "makeIDs n = map word_of_nat [0..<n]"

definition toIDs :: "Event list \<Rightarrow> 64 word list" where
  "toIDs e = map (\<lambda>ev. ID (Item ev)) e"

definition expectEvents :: "CircularBuffer \<Rightarrow> 64 word list \<Rightarrow> bool" where
  "expectEvents b ids =
     (if length ids = 0 then length (Events b) = 0 else toIDs (Events b) = ids)"

definition eventWithID :: "64 word \<Rightarrow> Event" where
  "eventWithID n = \<lparr>EventType = OpInvalid, Item = \<lparr>ItemKey = [], ItemValue = [], ID = n\<rparr>\<rparr>"

text \<open>
  The loop of \<^verbatim>\<open>listWithBuffer\<close> from index \<open>i\<close> on: emit element \<open>i\<close>, then expect
  \<^verbatim>\<open>elements[sliceEnd:i+1]\<close>. The result says whether every expectation holds.
\<close>

function pushThrough :: "CircularBuffer \<Rightarrow> nat \<Rightarrow> 64 word list \<Rightarrow> nat \<Rightarrow> bool" where
  "pushThrough b bufferSize elements i =
     (if i < length elements then
        (let b' = Emit (eventWithID (elements ! i)) b;
             sliceEnd = (if int i + 1 - int bufferSize < 0 then 0 else i + 1 - bufferSize)
         in expectEvents b' (take (i + 1 - sliceEnd) (drop sliceEnd elements)) \<and>
            pushThrough b' bufferSize elements (i + 1))
      else True)"
  by pat_completeness auto
termination
  by (relation "measure (\<lambda>(b, bufferSize, elements, i). length elements - i)") auto

definition listWithBuffer :: "CircularBuffer \<Rightarrow> nat \<Rightarrow> nat \<Rightarrow> bool" where
  "listWithBuffer b bufferSize listSize =
     (expectEvents b [] \<and> pushThrough b bufferSize (makeIDs listSize) 0)"

text \<open>
  Modelled from the spec: \<^verbatim>\<open>removeRedundantPrefixes\<close> (buffer.go is not among the
  sources). The specification says: drop any prefix that is covered by a shorter prefix
  already in the set; the result is sorted. Keys are byte strings, compared byte by byte.
\<close>

definition removeRedundantPrefixes :: "bytes list \<Rightarrow> bytes list" where
  "removeRedundantPrefixes ps =
     filter (\<lambda>p. \<not> list_ex (\<lambda>q. strict_prefix q p) ps) (sort ps)"

section \<open>The audit log (package events)\<close>

text \<open>
  Modelled from the spec: the audit log and its file log (auditlog.go and filelog.go are
  not among the sources; the test of the rotation is). The specification says: audit
  events are appended, one record per line, to a local file whose name encodes the
  calendar day (UTC) of the event; a symlink points at the current file; the log rotates
  when an emitted event's timestamp crosses a day boundary relative to the open file;
  a search over a time range merges the files of the days the range spans and returns
  the matching events. Times are seconds since the epoch; a file is named by the
  midnight that begins its day; a line is the event it records. The namespace, the
  event-type filter, the limit, the order and the cursor of a search are those of the
  test (the default namespace, no filter, no limit, ascending order, no cursor) and are
  left out.
\<close>

record AuditEvent =
  Time :: int
  EventName :: string
  Fields :: string

record AuditLog =
  logFiles :: "int \<rightharpoonup> AuditEvent list"
  openFile :: "int option"
  symlink :: "int option"


text \<open>
  Modelled from the spec: the date that the name of an event's file encodes (filelog.go
  is missing), the midnight UTC that begins the calendar day of the time.
\<close>

definition fileDate :: "int \<Rightarrow> int" where
  "fileDate t = t - t mod 86400"

text \<open>
  Modelled from the spec: a new audit log (auditlog.go is missing) has no file, no open
  file and no symlink.
\<close>

definition NewAuditLog :: AuditLog where
  "NewAuditLog = \<lparr>logFiles = Map.empty, openFile = None, symlink = None\<rparr>"

definition contents :: "AuditLog \<Rightarrow> int \<Rightarrow> AuditEvent list" where
  "contents log d = (case logFiles log d of None \<Rightarrow> [] | Some lines \<Rightarrow> lines)"

text \<open>
  Modelled from the spec: \<^verbatim>\<open>AuditLog.EmitAuditEvent\<close> (auditlog.go and filelog.go are
  missing). When the open file is not the one of the event's day the log rotates to the
  file of that day; the event is appended to it as one line, and the symlink is
  refreshed.
\<close>

definition AuditLog_EmitAuditEvent :: "AuditEvent \<Rightarrow> AuditLog \<Rightarrow> AuditLog" where
  "AuditLog_EmitAuditEvent event log =
     (let d = fileDate (Time event);
          opened = (if openFile log = Some d then log else log\<lparr>openFile := Some d\<rparr>)
      in opened\<lparr>logFiles := (logFiles opened)(d \<mapsto> contents opened d @ [event]),
                symlink := Some d\<rparr>)"


text \<open>
  Modelled from the spec: \<^verbatim>\<open>AuditLog.SearchEvents\<close> (auditlog.go and filelog.go are
  missing) merges the files of the days that the time range spans, in the order of the
  days, and returns the events whose time lies in the range.
\<close>

definition daysBetween :: "int \<Rightarrow> int \<Rightarrow> int list" where
  "daysBetween fromUTC toUTC =
     map (\<lambda>k. fileDate fromUTC + 86400 * int k)
       [0..<nat ((fileDate toUTC - fileDate fromUTC) div 86400 + 1)]"

definition SearchEvents :: "AuditLog \<Rightarrow> int \<Rightarrow> int \<Rightarrow> AuditEvent list" where
  "SearchEvents log fromUTC toUTC =
     filter (\<lambda>e. fromUTC \<le> Time e \<and> Time e \<le> toUTC)
       (concat (map (contents log) (daysBetween fromUTC toUTC)))"




section \<open>The database route check of the command line (tool tsh)\<close>

record RouteToDatabase =
  ServiceName :: string
  RouteProtocol :: string
  RouteUsername :: string
  Database :: string

record CLIConf =
  DatabaseUser :: string
  DatabaseName :: string

text \<open>
  Modelled from the spec: \<^verbatim>\<open>dbInfoHasChanged\<close> (only its test is among the sources).
  The specification's route validity check: a requested user that is not blank and
  differs from the routed user forces re-negotiation whatever the protocol; a requested
  database name that is not blank and differs from the routed name forces it only for
  the protocols where the selection of a database name is meaningful. Which protocols
  those are is the parameter \<open>nameSelectable\<close>. The route is the one of the
  certificate that the function reads.
\<close>

definition dbInfoHasChanged :: "(string \<Rightarrow> bool) \<Rightarrow> CLIConf \<Rightarrow> RouteToDatabase \<Rightarrow> bool" where
  "dbInfoHasChanged nameSelectable cf route =
     (if DatabaseUser cf \<noteq> '''' \<and> DatabaseUser cf \<noteq> RouteUsername route then True
      else if DatabaseName cf \<noteq> '''' \<and> DatabaseName cf \<noteq> Database route \<and>
              nameSelectable (RouteProtocol route) then True
      else False)"

text \<open>
  The table of \<^verbatim>\<open>TestDBInfoHasChanged\<close>: requested user, requested name, routed
  user, routed name, protocol, expected answer. The protocol constants are written with
  the names of the engines.
\<close>

definition TestDBInfoHasChanged_table ::
  "(string \<times> string \<times> string \<times> string \<times> string \<times> bool) list" where
  "TestDBInfoHasChanged_table =
     [('''', '''', ''alice'', '''', ''mongodb'', False),
      (''alice'', '''', ''bob'', '''', ''mongodb'', True),
      (''alice'', '''', ''bob'', '''', ''mysql'', True),
      (''bob'', '''', ''bob'', '''', ''mongodb'', False),
      ('''', '''', ''alice'', '''', ''mongodb'', False),
      ('''', ''db1'', ''alice'', ''db2'', ''mongodb'', True),
      ('''', ''db1'', ''alice'', ''db1'', ''mongodb'', False)]"

definition runTableCase ::
  "(string \<Rightarrow> bool) \<Rightarrow> string \<times> string \<times> string \<times> string \<times> string \<times> bool \<Rightarrow> bool" where
  "runTableCase nameSelectable c =
     (case c of (user, name, routedUser, routedName, protocol, want) \<Rightarrow>
        dbInfoHasChanged nameSelectable \<lparr>DatabaseUser = user, DatabaseName = name\<rparr>
          \<lparr>ServiceName = '''', RouteProtocol = protocol, RouteUsername = routedUser,
           Database = routedName\<rparr> = want)"


section \<open>Properties of the provisioning token\<close>

declare decimal.simps [simp del]

lemma checkEC2Rules_None_iff:
  "checkEC2Rules rs = None \<longleftrightarrow>
     (\<forall>r\<in>set rs. AWSARN r = [] \<and> (AWSAccount r \<noteq> [] \<or> AWSRole r \<noteq> []))"
  by (induction rs) auto

lemma checkIAMRules_None_iff:
  "checkIAMRules rs = None \<longleftrightarrow>
     (\<forall>r\<in>set rs. AWSRole r = [] \<and> AWSRegions r = [] \<and> (AWSAccount r \<noteq> [] \<or> AWSARN r \<noteq> []))"
  by (induction rs) auto

lemma checkJoinMethod_fst:
  "fst (checkJoinMethod p) = None \<longleftrightarrow>
     (JoinMethod (Spec p) = ''token'' \<and> Allow (Spec p) = []) \<or>
     (JoinMethod (Spec p) = ''ec2'' \<and> Allow (Spec p) \<noteq> [] \<and> checkEC2Rules (Allow (Spec p)) = None) \<or>
     (JoinMethod (Spec p) = ''iam'' \<and> Allow (Spec p) \<noteq> [] \<and> checkIAMRules (Allow (Spec p)) = None)"
  by (auto simp: checkJoinMethod_def Let_def JoinMethodToken_def JoinMethodEC2_def JoinMethodIAM_def
      split: option.splits)

lemma Spec_defaultJoinMethod:
  "Spec (defaultJoinMethod p) = (Spec p)\<lparr>JoinMethod := methodAfterDefault (Spec p)\<rparr>"
  by (simp add: defaultJoinMethod_def methodAfterDefault_def JoinMethodUnspecified_def
      JoinMethodToken_def JoinMethodEC2_def)

lemma checkJoinMethod_snd:
  "fst (checkJoinMethod p) = None \<Longrightarrow>
   Spec (snd (checkJoinMethod p)) =
     (Spec p)\<lparr>AWSIIDTTL := (if JoinMethod (Spec p) = ''ec2'' \<and> AWSIIDTTL (Spec p) = 0
                            then 300000000000 else AWSIIDTTL (Spec p))\<rparr>"
  by (auto simp: checkJoinMethod_def Let_def JoinMethodToken_def JoinMethodEC2_def JoinMethodIAM_def
      Minute_def split: option.splits if_splits)

lemmas token_run_defs =
  CheckAndSetDefaults_def example_types_pkg_def example_token_def setStaticFields_def
  defaultJoinMethod_def checkJoinMethod_def JoinMethodUnspecified_def JoinMethodToken_def
  JoinMethodEC2_def JoinMethodIAM_def Minute_def

text \<open>
  C1, as amended. \<^verbatim>\<open>CheckAndSetDefaults\<close> succeeds exactly when the metadata's own
  check succeeds, at least one role is set and the roles are valid, and the join method,
  once an unset one is defaulted (ec2 with allow rules, token without), is token with no
  allow rule, or ec2 with at least one allow rule where every rule sets account or role
  and no ARN, or iam with at least one allow rule where every rule sets account or ARN
  and neither role nor regions. A join method that is none of the three fails. When the
  call succeeds the token carries the defaulted join method, and for ec2 a zero
  \<^verbatim>\<open>AWSIIDTTL\<close> has become five minutes (300000000000 ns); nothing else of the spec
  changes.
\<close>

theorem CheckAndSetDefaults_succeeds_iff:
  "(fst (CheckAndSetDefaults env p) = None \<longleftrightarrow>
      (\<exists>m. Metadata_CheckAndSetDefaults env (Metadata p) = Inr m) \<and>
      Roles (Spec p) \<noteq> [] \<and> SystemRoles_Check env (Roles (Spec p)) = None \<and>
      (methodAfterDefault (Spec p) = ''token'' \<and> Allow (Spec p) = [] \<or>
       methodAfterDefault (Spec p) = ''ec2'' \<and> Allow (Spec p) \<noteq> [] \<and>
         (\<forall>r\<in>set (Allow (Spec p)). (AWSAccount r \<noteq> '''' \<or> AWSRole r \<noteq> '''') \<and> AWSARN r = '''') \<or>
       methodAfterDefault (Spec p) = ''iam'' \<and> Allow (Spec p) \<noteq> [] \<and>
         (\<forall>r\<in>set (Allow (Spec p)). (AWSAccount r \<noteq> '''' \<or> AWSARN r \<noteq> '''') \<and>
             AWSRole r = '''' \<and> AWSRegions r = []))) \<and>
   (fst (CheckAndSetDefaults env p) = None \<longrightarrow>
      Spec (snd (CheckAndSetDefaults env p)) =
        (Spec p)\<lparr>JoinMethod := methodAfterDefault (Spec p),
                 AWSIIDTTL := (if methodAfterDefault (Spec p) = ''ec2'' \<and> AWSIIDTTL (Spec p) = 0
                               then 300000000000 else AWSIIDTTL (Spec p))\<rparr>)"
proof (cases "Metadata_CheckAndSetDefaults env (Metadata p)")
  case (Inl e)
  then show ?thesis
    by (simp add: CheckAndSetDefaults_def setStaticFields_def Let_def)
next
  case (Inr m)
  let ?q = "defaultJoinMethod (setStaticFields env p\<lparr>Metadata := m\<rparr>)"
  have sq: "Spec ?q = (Spec p)\<lparr>JoinMethod := methodAfterDefault (Spec p)\<rparr>"
    by (simp add: Spec_defaultJoinMethod setStaticFields_def)
  show ?thesis
  proof (cases "Roles (Spec p) = [] \<or> SystemRoles_Check env (Roles (Spec p)) \<noteq> None")
    case True
    with Inr show ?thesis
      by (auto simp: CheckAndSetDefaults_def setStaticFields_def Let_def split: option.splits)
  next
    case False
    with Inr have run: "CheckAndSetDefaults env p = checkJoinMethod ?q"
      by (auto simp: CheckAndSetDefaults_def setStaticFields_def Let_def split: option.splits)
    have a: "fst (checkJoinMethod ?q) = None \<longleftrightarrow>
      (methodAfterDefault (Spec p) = ''token'' \<and> Allow (Spec p) = [] \<or>
       methodAfterDefault (Spec p) = ''ec2'' \<and> Allow (Spec p) \<noteq> [] \<and>
         (\<forall>r\<in>set (Allow (Spec p)). (AWSAccount r \<noteq> '''' \<or> AWSRole r \<noteq> '''') \<and> AWSARN r = '''') \<or>
       methodAfterDefault (Spec p) = ''iam'' \<and> Allow (Spec p) \<noteq> [] \<and>
         (\<forall>r\<in>set (Allow (Spec p)). (AWSAccount r \<noteq> '''' \<or> AWSARN r \<noteq> '''') \<and>
             AWSRole r = '''' \<and> AWSRegions r = []))"
      unfolding checkJoinMethod_fst sq checkEC2Rules_None_iff checkIAMRules_None_iff
      by auto
    have b: "fst (checkJoinMethod ?q) = None \<Longrightarrow> Spec (snd (checkJoinMethod ?q)) =
        (Spec p)\<lparr>JoinMethod := methodAfterDefault (Spec p),
                 AWSIIDTTL := (if methodAfterDefault (Spec p) = ''ec2'' \<and> AWSIIDTTL (Spec p) = 0
                               then 300000000000 else AWSIIDTTL (Spec p))\<rparr>"
      using checkJoinMethod_snd[of ?q] unfolding sq by simp
    from False Inr a b show ?thesis unfolding run by auto
  qed
qed

text \<open>
  Witness for C1: a token with one allow rule that sets an account, no join method and
  no TTL meets the conditions; it validates, as an ec2 token with a TTL of five minutes.
\<close>

theorem CheckAndSetDefaults_succeeds_witness:
  "fst (CheckAndSetDefaults example_types_pkg
          (example_token '''' [\<lparr>AWSAccount = ''123456789012'', AWSRegions = [],
                                AWSRole = '''', AWSARN = ''''\<rparr>])) = None \<and>
   Spec (snd (CheckAndSetDefaults example_types_pkg
          (example_token '''' [\<lparr>AWSAccount = ''123456789012'', AWSRegions = [],
                                AWSRole = '''', AWSARN = ''''\<rparr>]))) =
     \<lparr>Roles = [''Node''],
      Allow = [\<lparr>AWSAccount = ''123456789012'', AWSRegions = [], AWSRole = '''', AWSARN = ''''\<rparr>],
      AWSIIDTTL = 300000000000, JoinMethod = ''ec2''\<rparr>"
  using CheckAndSetDefaults_succeeds_iff
          [of example_types_pkg
              "example_token '''' [\<lparr>AWSAccount = ''123456789012'', AWSRegions = [],
                                    AWSRole = '''', AWSARN = ''''\<rparr>]"]
  by (simp add: example_types_pkg_def example_token_def methodAfterDefault_def)

text \<open>
  Counterexample to C1 as stated: a token with a role, no allow rule and the join method
  kubernetes meets every condition the claim lists (they speak of token, ec2 and iam
  only), and the call fails.
\<close>

theorem CheckAndSetDefaults_unknown_method_counterexample:
  "listedTokenConditions example_types_pkg (example_token ''kubernetes'' []) \<and>
   fst (CheckAndSetDefaults example_types_pkg (example_token ''kubernetes'' [])) =
     Some (BadParameter (''unknown join method '' @ quoted ''kubernetes''))"
  by (simp add: token_run_defs listedTokenConditions_def methodAfterDefault_def)

text \<open>
  C2, at the failing input: an iam token whose only allow rule sets neither account nor
  ARN is refused with a \<^verbatim>\<open>BadParameter\<close> whose message names the parameters and the
  ec2 method; the text iam is nowhere in it.
\<close>

theorem iam_rule_message_names_ec2:
  "fst (CheckAndSetDefaults example_types_pkg
          (example_token ''iam'' [\<lparr>AWSAccount = '''', AWSRegions = [],
                                   AWSRole = '''', AWSARN = ''''\<rparr>])) =
     Some (BadParameter (''allow rule for '' @ quoted ''ec2'' @ '' join method must set ''
             @ quoted ''aws_account'' @ '' or '' @ quoted ''aws_arn'')) \<and>
   \<not> Contains (''allow rule for '' @ quoted ''ec2'' @ '' join method must set ''
                @ quoted ''aws_account'' @ '' or '' @ quoted ''aws_arn'') ''iam''"
proof
  show "fst (CheckAndSetDefaults example_types_pkg
          (example_token ''iam'' [\<lparr>AWSAccount = '''', AWSRegions = [],
                                   AWSRole = '''', AWSARN = ''''\<rparr>])) =
     Some (BadParameter (''allow rule for '' @ quoted ''ec2'' @ '' join method must set ''
             @ quoted ''aws_account'' @ '' or '' @ quoted ''aws_arn''))"
    by (simp add: token_run_defs)
  show "\<not> Contains (''allow rule for '' @ quoted ''ec2'' @ '' join method must set ''
                @ quoted ''aws_account'' @ '' or '' @ quoted ''aws_arn'') ''iam''"
    unfolding Contains_def quoted_def by code_simp
qed

section \<open>Properties of the SSH server\<close>

text \<open>What \<^verbatim>\<open>HandleNewConn\<close> does once the lock check has passed.\<close>

lemma HandleNewConn_after_lock_check:
  assumes "passesLockCheck s env ic"
  shows "HandleNewConn K s env ccx =
     (if Component s \<noteq> ComponentNode then (None, [])
      else if MaxConnections (AccessChecker ic) = 0 then (None, [])
      else
        (case GetSessionControlTimeout env of
           Inl err \<Rightarrow> (Some err, [])
         | Inr timeout \<Rightarrow>
            (case AcquireSemaphoreLock env (connSemaphoreConfig K s ic timeout) of
               Inl err \<Rightarrow>
                 (if Contains (Error err) (MaxLeases K) then
                   (Some (AccessDenied (''too many concurrent ssh connections for user ''
                      @ quoted (TeleportUser ic)
                      @ '' (max='' @ fmt_d (sint (MaxConnections (AccessChecker ic))) @ '')'')),
                    [Call_AcquireSemaphoreLock (connSemaphoreConfig K s ic timeout),
                     Inc_userSessionLimitHitCount,
                     EmitAuditEvent ((rejectEvent K s ic ccx)\<lparr>Reason := SessionRejectedEvent K,
                         Maximum := MaxConnections (AccessChecker ic)\<rparr>)])
                  else (Some err, [Call_AcquireSemaphoreLock (connSemaphoreConfig K s ic timeout)]))
             | Inr semLock \<Rightarrow>
                 (None, [Call_AcquireSemaphoreLock (connSemaphoreConfig K s ic timeout),
                         Go_closeOnLeaseLoss semLock]))))"
  using assms
  by (auto simp: passesLockCheck_def HandleNewConn_def Let_def connSemaphoreConfig_def
      split: sum.splits option.splits)

lemma example_passesLockCheck:
  "passesLockCheck (example_server proxy) (example_conn_env ic None held) ic"
  by (simp add: passesLockCheck_def example_conn_env_def)




text \<open>
  C10. When the lock check has passed and either the server is not a node or the
  identity's maximum of connections is zero, \<^verbatim>\<open>HandleNewConn\<close> admits the connection
  (nil error) with no effect at all: no semaphore request, no lease to watch, no event.
  In every role, a lock in force rejects the connection with the lock's error after a
  \<^verbatim>\<open>SessionReject\<close> event that carries it. And whatever else happens, a server that is
  not a node, or an identity with a maximum of zero, never leads to a semaphore request.
\<close>

theorem no_limit_no_lease:
  "(passesLockCheck s env ic \<and>
    (Component s \<noteq> ComponentNode \<or> MaxConnections (AccessChecker ic) = 0)
      \<longrightarrow> HandleNewConn K s env ccx = (None, [])) \<and>
   (CreateIdentityContext env = Inr ic \<and> GetLockingMode env = Inr mode \<and>
    ComputeLockTargets env s ic = Inr targets \<and>
    CheckLockInForce env (LockingMode (AccessChecker ic) mode) targets = Some lockErr
      \<longrightarrow> HandleNewConn K s env ccx =
            (Some lockErr, [EmitAuditEvent ((rejectEvent K s ic ccx)\<lparr>Reason := Error lockErr\<rparr>)])) \<and>
   ((Component s \<noteq> ComponentNode \<or>
       (\<exists>ic. CreateIdentityContext env = Inr ic \<and> MaxConnections (AccessChecker ic) = 0))
      \<longrightarrow> (\<forall>cfg. Call_AcquireSemaphoreLock cfg \<notin> set (snd (HandleNewConn K s env ccx))) \<and>
           (\<forall>l. Go_closeOnLeaseLoss l \<notin> set (snd (HandleNewConn K s env ccx))))"
proof (intro conjI impI)
  assume "passesLockCheck s env ic \<and>
    (Component s \<noteq> ComponentNode \<or> MaxConnections (AccessChecker ic) = 0)"
  then show "HandleNewConn K s env ccx = (None, [])"
    by (auto simp: HandleNewConn_after_lock_check[of s env ic K ccx])
next
  assume "CreateIdentityContext env = Inr ic \<and> GetLockingMode env = Inr mode \<and>
    ComputeLockTargets env s ic = Inr targets \<and>
    CheckLockInForce env (LockingMode (AccessChecker ic) mode) targets = Some lockErr"
  then show "HandleNewConn K s env ccx =
            (Some lockErr, [EmitAuditEvent ((rejectEvent K s ic ccx)\<lparr>Reason := Error lockErr\<rparr>)])"
    by (simp add: HandleNewConn_def Let_def)
next
  assume "Component s \<noteq> ComponentNode \<or>
       (\<exists>ic. CreateIdentityContext env = Inr ic \<and> MaxConnections (AccessChecker ic) = 0)"
  then show "\<forall>cfg. Call_AcquireSemaphoreLock cfg \<notin> set (snd (HandleNewConn K s env ccx))"
    by (auto simp: HandleNewConn_def Let_def split: sum.splits option.splits)
next
  assume "Component s \<noteq> ComponentNode \<or>
       (\<exists>ic. CreateIdentityContext env = Inr ic \<and> MaxConnections (AccessChecker ic) = 0)"
  then show "\<forall>l. Go_closeOnLeaseLoss l \<notin> set (snd (HandleNewConn K s env ccx))"
    by (auto simp: HandleNewConn_def Let_def split: sum.splits option.splits)
qed

text \<open>
  Witness for C10: a proxy admits alice although her one lease is out; a node admits an
  identity with no connection limit; and a lock in force stops alice at a proxy.
\<close>

theorem no_limit_no_lease_witness:
  "HandleNewConn example_consts (example_server True)
      (example_conn_env (example_identity 1 2) None 1) (example_ccx 0) = (None, []) \<and>
   HandleNewConn example_consts (example_server False)
      (example_conn_env (example_identity 0 2) None 1) (example_ccx 0) = (None, []) \<and>
   HandleNewConn example_consts (example_server True)
      (example_conn_env (example_identity 1 2) (Some (AccessDenied ''lock targeting User:alice is in force'')) 0)
      (example_ccx 0) =
     (Some (AccessDenied ''lock targeting User:alice is in force''),
      [EmitAuditEvent ((rejectEvent example_consts (example_server True) (example_identity 1 2) (example_ccx 0))
                         \<lparr>Reason := ''lock targeting User:alice is in force''\<rparr>)])"
proof -
  have proxy: "passesLockCheck (example_server True)
                 (example_conn_env (example_identity 1 2) None 1) (example_identity 1 2)"
    by (rule example_passesLockCheck)
  have node: "passesLockCheck (example_server False)
                 (example_conn_env (example_identity 0 2) None 1) (example_identity 0 2)"
    by (rule example_passesLockCheck)
  note a = no_limit_no_lease
      [of "example_server True" "example_conn_env (example_identity 1 2) None 1"
          "example_identity 1 2" example_consts "example_ccx 0", THEN conjunct1]
  note b = no_limit_no_lease
      [of "example_server False" "example_conn_env (example_identity 0 2) None 1"
          "example_identity 0 2" example_consts "example_ccx 0", THEN conjunct1]
  note c = no_limit_no_lease
      [of "example_server True"
          "example_conn_env (example_identity 1 2) (Some (AccessDenied ''lock targeting User:alice is in force'')) 0"
          "example_identity 1 2" example_consts "example_ccx 0" "''best_effort''"
          "[''alice'', ''host-1'']" "AccessDenied ''lock targeting User:alice is in force''",
        THEN conjunct2, THEN conjunct1]
  have 1: "HandleNewConn example_consts (example_server True)
      (example_conn_env (example_identity 1 2) None 1) (example_ccx 0) = (None, [])"
    using a proxy by (simp add: Component_def example_server_def)
  have 2: "HandleNewConn example_consts (example_server False)
      (example_conn_env (example_identity 0 2) None 1) (example_ccx 0) = (None, [])"
    using b node by (simp add: example_identity_def)
  have 3: "HandleNewConn example_consts (example_server True)
      (example_conn_env (example_identity 1 2) (Some (AccessDenied ''lock targeting User:alice is in force'')) 0)
      (example_ccx 0) =
     (Some (AccessDenied ''lock targeting User:alice is in force''),
      [EmitAuditEvent ((rejectEvent example_consts (example_server True) (example_identity 1 2) (example_ccx 0))
                         \<lparr>Reason := ''lock targeting User:alice is in force''\<rparr>)])"
    using c by (simp add: example_conn_env_def example_identity_def example_server_def)
  from 1 2 3 show ?thesis by simp
qed

section \<open>Properties of client keys\<close>

lemma checkTLSCAs_first_bad:
  "i < length cs \<Longrightarrow> (\<forall>j<i. AppendCertsFromPEM D (cs ! j)) \<Longrightarrow>
   \<not> AppendCertsFromPEM D (cs ! i) \<Longrightarrow>
   checkTLSCAs D n cs =
     Some (BadParameter (''identity file contains invalid TLS CA cert (#''
             @ fmt_d (int (n + i) + 1) @ '')''))"
proof (induction cs arbitrary: n i)
  case Nil
  then show ?case by simp
next
  case (Cons c cs)
  show ?case
  proof (cases i)
    case 0
    with Cons.prems show ?thesis by simp
  next
    case (Suc i')
    with Cons.prems have "AppendCertsFromPEM D c" by auto
    moreover from Suc Cons.prems
    have "i' < length cs" "\<forall>j<i'. AppendCertsFromPEM D (cs ! j)"
      "\<not> AppendCertsFromPEM D (cs ! i')" by auto
    ultimately show ?thesis using Cons.IH[of i' "Suc n"] Suc by simp
  qed
qed

lemma checkTLSCAs_all_good:
  "(\<forall>c\<in>set cs. AppendCertsFromPEM D c) \<Longrightarrow> checkTLSCAs D n cs = None"
  by (induction cs arbitrary: n) auto

lemma checkSSHCAs_first_bad:
  "i < length cs \<Longrightarrow> (\<forall>j<i. ParseKnownHosts D (cs ! j) = None) \<Longrightarrow>
   ParseKnownHosts D (cs ! i) = Some err \<Longrightarrow>
   checkSSHCAs D cs = Some (BadParameter (''CA cert parsing error: '' @ Error err @ caHint))"
proof (induction cs arbitrary: i)
  case Nil
  then show ?case by simp
next
  case (Cons c cs)
  show ?case
  proof (cases i)
    case 0
    with Cons.prems show ?thesis by simp
  next
    case (Suc i')
    with Cons.prems have "ParseKnownHosts D c = None" by auto
    moreover from Suc Cons.prems
    have "i' < length cs" "\<forall>j<i'. ParseKnownHosts D (cs ! j) = None"
      "ParseKnownHosts D (cs ! i') = Some err" by auto
    ultimately show ?thesis using Cons.IH[of i'] by simp
  qed
qed

lemma Contains_middle: "Contains (pre @ s @ post) s"
  by (simp add: Contains_def)

lemma example_keyAndCertAccepted:
  "keyAndCertAccepted (example_client_deps (example_ident ''PRIVATE KEY'' '''' tlsCAs sshCAs))
     (example_ident ''PRIVATE KEY'' '''' tlsCAs sshCAs)"
  by (simp add: keyAndCertAccepted_def example_client_deps_def example_ident_def)

text \<open>
  C8, as amended. Of an identity file that was read, \<^verbatim>\<open>KeyFromIdentityFile\<close> rejects
  a private key that does not parse with a \<^verbatim>\<open>BadParameter\<close> whose message contains the
  path; a TLS certificate that does not match the key with the error of
  \<^verbatim>\<open>tls.X509KeyPair\<close> itself, as it is; the first TLS CA certificate that does not
  parse with a \<^verbatim>\<open>BadParameter\<close> that gives its number, counted from one; and the first
  SSH CA line that does not parse with a \<^verbatim>\<open>BadParameter\<close> that carries the parser's
  text and a hint.
\<close>

theorem KeyFromIdentityFile_rejections:
  assumes "ReadIdentityFile D path = Inr ident"
  shows
  "(ParseRawPrivateKey D (PrivateKey ident) = Inl err \<longrightarrow>
      KeyFromIdentityFile D path =
        Inl (BadParameter (''invalid identity: '' @ path @ ''. '' @ Error err)) \<and>
      Contains (''invalid identity: '' @ path @ ''. '' @ Error err) path) \<and>
   (ParseRawPrivateKey D (PrivateKey ident) = Inr privKey \<and>
    NewSignerFromKey D privKey = Inr signerPub \<and> Certs_TLS ident \<noteq> [] \<and>
    X509KeyPair D (Certs_TLS ident) (PrivateKey ident) = Some err
      \<longrightarrow> KeyFromIdentityFile D path = Inl err) \<and>
   (keyAndCertAccepted D ident \<and> i < length (CACerts_TLS ident) \<and>
    (\<forall>j<i. AppendCertsFromPEM D (CACerts_TLS ident ! j)) \<and>
    \<not> AppendCertsFromPEM D (CACerts_TLS ident ! i)
      \<longrightarrow> KeyFromIdentityFile D path =
            Inl (BadParameter (''identity file contains invalid TLS CA cert (#''
                   @ fmt_d (int i + 1) @ '')''))) \<and>
   (keyAndCertAccepted D ident \<and> (\<forall>c\<in>set (CACerts_TLS ident). AppendCertsFromPEM D c) \<and>
    i < length (CACerts_SSH ident) \<and>
    (\<forall>j<i. ParseKnownHosts D (CACerts_SSH ident ! j) = None) \<and>
    ParseKnownHosts D (CACerts_SSH ident ! i) = Some err
      \<longrightarrow> KeyFromIdentityFile D path =
            Inl (BadParameter (''CA cert parsing error: '' @ Error err @ caHint)))"
proof (intro conjI impI)
  assume "ParseRawPrivateKey D (PrivateKey ident) = Inl err"
  with assms show "KeyFromIdentityFile D path =
      Inl (BadParameter (''invalid identity: '' @ path @ ''. '' @ Error err))"
    by (simp add: KeyFromIdentityFile_def)
next
  show "Contains (''invalid identity: '' @ path @ ''. '' @ Error err) path"
    by (rule Contains_middle)
next
  assume "ParseRawPrivateKey D (PrivateKey ident) = Inr privKey \<and>
    NewSignerFromKey D privKey = Inr signerPub \<and> Certs_TLS ident \<noteq> [] \<and>
    X509KeyPair D (Certs_TLS ident) (PrivateKey ident) = Some err"
  with assms show "KeyFromIdentityFile D path = Inl err"
    by (simp add: KeyFromIdentityFile_def)
next
  assume a: "keyAndCertAccepted D ident \<and> i < length (CACerts_TLS ident) \<and>
    (\<forall>j<i. AppendCertsFromPEM D (CACerts_TLS ident ! j)) \<and>
    \<not> AppendCertsFromPEM D (CACerts_TLS ident ! i)"
  then have "checkTLSCAs D 0 (CACerts_TLS ident) =
     Some (BadParameter (''identity file contains invalid TLS CA cert (#''
             @ fmt_d (int i + 1) @ '')''))"
    using checkTLSCAs_first_bad[of i "CACerts_TLS ident" D 0] by simp
  moreover from a have "CACerts_TLS ident \<noteq> []" by auto
  ultimately show "KeyFromIdentityFile D path =
            Inl (BadParameter (''identity file contains invalid TLS CA cert (#''
                   @ fmt_d (int i + 1) @ '')''))"
    using a assms by (auto simp: KeyFromIdentityFile_def keyAndCertAccepted_def Let_def)
next
  assume a: "keyAndCertAccepted D ident \<and>
    (\<forall>c\<in>set (CACerts_TLS ident). AppendCertsFromPEM D c) \<and>
    i < length (CACerts_SSH ident) \<and>
    (\<forall>j<i. ParseKnownHosts D (CACerts_SSH ident ! j) = None) \<and>
    ParseKnownHosts D (CACerts_SSH ident ! i) = Some err"
  then have "checkSSHCAs D (CACerts_SSH ident) =
      Some (BadParameter (''CA cert parsing error: '' @ Error err @ caHint))"
    using checkSSHCAs_first_bad[of i "CACerts_SSH ident" D err] by simp
  moreover from a have "checkTLSCAs D 0 (CACerts_TLS ident) = None"
    by (simp add: checkTLSCAs_all_good)
  moreover from a have "CACerts_SSH ident \<noteq> []" by auto
  ultimately show "KeyFromIdentityFile D path =
            Inl (BadParameter (''CA cert parsing error: '' @ Error err @ caHint))"
    using a assms by (auto simp: KeyFromIdentityFile_def keyAndCertAccepted_def Let_def)
qed

text \<open>
  Witness for C8: an identity file whose private key is not a key, and one with a good
  key, two good TLS CA certificates and, second of its SSH CA lines, one that is not an
  authority line.
\<close>

theorem KeyFromIdentityFile_rejections_witness:
  "KeyFromIdentityFile (example_client_deps (example_ident ''garbage'' '''' [] []))
      ''/home/alice/identity.pem'' =
     Inl (BadParameter (''invalid identity: '' @ ''/home/alice/identity.pem'' @ ''. ''
            @ ''ssh: no key found'')) \<and>
   Contains (''invalid identity: '' @ ''/home/alice/identity.pem'' @ ''. '' @ ''ssh: no key found'')
     ''/home/alice/identity.pem'' \<and>
   KeyFromIdentityFile
      (example_client_deps (example_ident ''PRIVATE KEY'' '''' [''CA CERTIFICATE'', ''CA CERTIFICATE'']
          [''@cert-authority *.example.com ssh-rsa AAAA'', ''not an authority line'']))
      ''/home/alice/identity.pem'' =
     Inl (BadParameter (''CA cert parsing error: '' @ ''ssh: no key found'' @ caHint)) \<and>
   KeyFromIdentityFile
      (example_client_deps (example_ident ''PRIVATE KEY'' ''CERTIFICATE of another key'' [] []))
      ''/home/alice/identity.pem'' =
     Inl (Foreign ''tls: private key does not match public key'') \<and>
   KeyFromIdentityFile
      (example_client_deps (example_ident ''PRIVATE KEY'' '''' [''CA CERTIFICATE'', ''not a certificate''] []))
      ''/home/alice/identity.pem'' =
     Inl (BadParameter (''identity file contains invalid TLS CA cert (#'' @ fmt_d 2 @ '')''))"
proof -
  let ?tls = "example_ident ''PRIVATE KEY'' ''CERTIFICATE of another key'' [] []"
  let ?tlsca = "example_ident ''PRIVATE KEY'' '''' [''CA CERTIFICATE'', ''not a certificate''] []"
  have r3: "ReadIdentityFile (example_client_deps ?tls) ''/home/alice/identity.pem'' = Inr ?tls"
    by (simp add: example_client_deps_def)
  have r4: "ReadIdentityFile (example_client_deps ?tlsca) ''/home/alice/identity.pem'' = Inr ?tlsca"
    by (simp add: example_client_deps_def)
  have p3: "ParseRawPrivateKey (example_client_deps ?tls) (PrivateKey ?tls) = Inr ''PRIVATE KEY''"
    "NewSignerFromKey (example_client_deps ?tls) ''PRIVATE KEY'' = Inr ''public key of PRIVATE KEY''"
    "Certs_TLS ?tls \<noteq> []"
    "X509KeyPair (example_client_deps ?tls) (Certs_TLS ?tls) (PrivateKey ?tls)
       = Some (Foreign ''tls: private key does not match public key'')"
    by (simp_all add: example_client_deps_def example_ident_def)
  have c4: "(1::nat) < length (CACerts_TLS ?tlsca)"
    "\<forall>j<(1::nat). AppendCertsFromPEM (example_client_deps ?tlsca) (CACerts_TLS ?tlsca ! j)"
    "\<not> AppendCertsFromPEM (example_client_deps ?tlsca) (CACerts_TLS ?tlsca ! 1)"
    by (simp_all add: example_client_deps_def example_ident_def)
  note tls = KeyFromIdentityFile_rejections
      [OF r3, where err = "Foreign ''tls: private key does not match public key''"
         and privKey = "''PRIVATE KEY''" and signerPub = "''public key of PRIVATE KEY''",
       THEN conjunct2, THEN conjunct1]
  note tlsca = KeyFromIdentityFile_rejections
      [OF r4, where i = 1, THEN conjunct2, THEN conjunct2, THEN conjunct1]
  let ?bad = "example_ident ''garbage'' '''' [] []"
  let ?ca = "example_ident ''PRIVATE KEY'' '''' [''CA CERTIFICATE'', ''CA CERTIFICATE'']
          [''@cert-authority *.example.com ssh-rsa AAAA'', ''not an authority line'']"
  have r1: "ReadIdentityFile (example_client_deps ?bad) ''/home/alice/identity.pem'' = Inr ?bad"
    by (simp add: example_client_deps_def)
  have r2: "ReadIdentityFile (example_client_deps ?ca) ''/home/alice/identity.pem'' = Inr ?ca"
    by (simp add: example_client_deps_def)
  have p1: "ParseRawPrivateKey (example_client_deps ?bad) (PrivateKey ?bad)
              = Inl (Foreign ''ssh: no key found'')"
    by (simp add: example_client_deps_def example_ident_def)
  have c2: "\<forall>c\<in>set (CACerts_TLS ?ca). AppendCertsFromPEM (example_client_deps ?ca) c"
    by (simp add: example_client_deps_def example_ident_def)
  have s2: "(1::nat) < length (CACerts_SSH ?ca)"
    "\<forall>j<(1::nat). ParseKnownHosts (example_client_deps ?ca) (CACerts_SSH ?ca ! j) = None"
    "ParseKnownHosts (example_client_deps ?ca) (CACerts_SSH ?ca ! 1) = Some (Foreign ''ssh: no key found'')"
    by (simp_all add: example_client_deps_def example_ident_def)
  note key = KeyFromIdentityFile_rejections
      [OF r1, where err = "Foreign ''ssh: no key found''", THEN conjunct1]
  note ca = KeyFromIdentityFile_rejections
      [OF r2, where err = "Foreign ''ssh: no key found''" and i = 1,
       THEN conjunct2, THEN conjunct2, THEN conjunct2]
  from key p1 ca example_keyAndCertAccepted c2 s2 tls p3 tlsca c4 show ?thesis
    by simp
qed

text \<open>
  Counterexample to C8 as stated: the key of the identity file parses and its TLS
  certificate belongs to another key. The call fails with the TLS library's own error,
  which is not a \<^verbatim>\<open>BadParameter\<close> and does not contain the path.
\<close>

theorem KeyFromIdentityFile_tls_mismatch_counterexample:
  "KeyFromIdentityFile
      (example_client_deps (example_ident ''PRIVATE KEY'' ''CERTIFICATE of another key'' [] []))
      ''/home/alice/identity.pem'' =
     Inl (Foreign ''tls: private key does not match public key'') \<and>
   \<not> IsBadParameter (Foreign ''tls: private key does not match public key'') \<and>
   \<not> Contains (Error (Foreign ''tls: private key does not match public key''))
        ''/home/alice/identity.pem''"
proof (intro conjI)
  show "KeyFromIdentityFile
      (example_client_deps (example_ident ''PRIVATE KEY'' ''CERTIFICATE of another key'' [] []))
      ''/home/alice/identity.pem'' =
     Inl (Foreign ''tls: private key does not match public key'')"
    by (simp add: KeyFromIdentityFile_def example_client_deps_def example_ident_def)
  show "\<not> IsBadParameter (Foreign ''tls: private key does not match public key'')"
    by simp
  show "\<not> Contains (Error (Foreign ''tls: private key does not match public key''))
        ''/home/alice/identity.pem''"
    unfolding Contains_def by code_simp
qed



section \<open>Properties of the event buffer\<close>

lemma mod_shift_neq:
  fixes h i j n :: nat
  assumes "i < j" "j < n + i"
  shows "(h + i) mod n \<noteq> (h + j) mod n"
proof
  assume "(h + i) mod n = (h + j) mod n"
  then have "(h + j) mod n = (h + i) mod n" by simp
  moreover have "h + i \<le> h + j" using assms by simp
  ultimately have "n dvd (h + j) - (h + i)"
    by (simp add: mod_eq_dvd_iff_nat)
  then have "n dvd j - i" by simp
  moreover have "0 < j - i" "j - i < n" using assms by auto
  ultimately show False by (auto dest: dvd_imp_le)
qed

lemma length_Events [simp]: "length (Events b) = filled b"
  by (simp add: Events_def)

lemma Events_Emit_room:
  assumes "ringOK b" "filled b < length (ring b)"
  shows "Events (Emit r b) = Events b @ [r]"
proof -
  let ?n = "length (ring b)"
  have idx: "(head b + filled b) mod ?n < ?n" using assms by (simp add: ringOK_def)
  have old: "\<And>i. i < filled b \<Longrightarrow> (head b + filled b) mod ?n \<noteq> (head b + i) mod ?n"
    using assms by (intro not_sym[OF mod_shift_neq]) auto
  have "Events (Emit r b) =
          map (\<lambda>i. (ring b)[(head b + filled b) mod ?n := r] ! ((head b + i) mod ?n)) [0..<filled b]
          @ [(ring b)[(head b + filled b) mod ?n := r] ! ((head b + filled b) mod ?n)]"
    using assms by (simp add: Emit_def Events_def ringOK_def)
  also have "map (\<lambda>i. (ring b)[(head b + filled b) mod ?n := r] ! ((head b + i) mod ?n)) [0..<filled b]
          = Events b"
    unfolding Events_def by (rule map_cong) (auto simp: old)
  also have "(ring b)[(head b + filled b) mod ?n := r] ! ((head b + filled b) mod ?n) = r"
    using idx by simp
  finally show ?thesis .
qed

lemma Events_Emit_full:
  assumes "ringOK b" "filled b = length (ring b)"
  shows "Events (Emit r b) = tl (Events b) @ [r]"
proof (rule nth_equalityI)
  show "length (Events (Emit r b)) = length (tl (Events b) @ [r])"
    using assms by (simp add: Emit_def ringOK_def)
next
  let ?n = "length (ring b)"
  fix i assume "i < length (Events (Emit r b))"
  then have i: "i < ?n" using assms by (simp add: Emit_def ringOK_def)
  have h: "head b < ?n" "0 < ?n" using assms by (auto simp: ringOK_def)
  have shift: "((head b + 1) mod ?n + i) mod ?n = (head b + (i + 1)) mod ?n"
    by (simp add: mod_simps ac_simps)
  have E: "Events (Emit r b) ! i = (ring b)[head b := r] ! ((head b + (i + 1)) mod ?n)"
    using assms i shift by (simp add: Emit_def Events_def ringOK_def)
  show "Events (Emit r b) ! i = (tl (Events b) @ [r]) ! i"
  proof (cases "i + 1 < ?n")
    case True
    have "(head b + 0) mod ?n \<noteq> (head b + (i + 1)) mod ?n"
      using True by (intro mod_shift_neq) auto
    then have "(head b + (i + 1)) mod ?n \<noteq> head b" using h by auto
    then have "Events (Emit r b) ! i = ring b ! ((head b + (i + 1)) mod ?n)"
      using E by simp
    also have "\<dots> = Events b ! (i + 1)"
      using True assms by (simp add: Events_def)
    also have "\<dots> = (tl (Events b) @ [r]) ! i"
      using True assms by (simp add: nth_append nth_tl)
    finally show ?thesis .
  next
    case False
    with i have ieq: "i + 1 = ?n" by simp
    then have "(head b + (i + 1)) mod ?n = head b" using h by simp
    then have "Events (Emit r b) ! i = r" using E h by simp
    moreover have "(tl (Events b) @ [r]) ! i = r"
      using ieq assms by (simp add: nth_append)
    ultimately show ?thesis by simp
  qed
qed

lemma ringOK_Emit:
  assumes "ringOK b"
  shows "ringOK (Emit r b)" "length (ring (Emit r b)) = length (ring b)"
    "filled (Emit r b) = min (filled b + 1) (length (ring b))"
  using assms by (auto simp: Emit_def ringOK_def)

lemma ringOK_New: "0 < C \<Longrightarrow> ringOK (NewCircularBuffer C)"
  by (simp add: ringOK_def NewCircularBuffer_def)

lemma emitAll_snoc: "emitAll b (es @ [e]) = Emit e (emitAll b es)"
  by (simp add: emitAll_def)

lemma emitAll_invariant:
  assumes "0 < C"
  shows "ringOK (emitAll (NewCircularBuffer C) es) \<and>
         length (ring (emitAll (NewCircularBuffer C) es)) = C \<and>
         filled (emitAll (NewCircularBuffer C) es) = min (length es) C \<and>
         Events (emitAll (NewCircularBuffer C) es) = drop (length es - C) es"
proof (induction es rule: rev_induct)
  case Nil
  have "ringOK (NewCircularBuffer C)" using assms by (rule ringOK_New)
  moreover have "length (ring (NewCircularBuffer C)) = C" "filled (NewCircularBuffer C) = 0"
    "Events (NewCircularBuffer C) = []"
    by (simp_all add: NewCircularBuffer_def Events_def)
  ultimately show ?case by (simp add: emitAll_def)
next
  case (snoc e es)
  let ?b = "emitAll (NewCircularBuffer C) es"
  from snoc have ok: "ringOK ?b" and len: "length (ring ?b) = C"
    and fl: "filled ?b = min (length es) C"
    and ev: "Events ?b = drop (length es - C) es" by auto
  have ev': "Events (Emit e ?b) = drop (length (es @ [e]) - C) (es @ [e])"
  proof (cases "length es < C")
    case True
    then have "filled ?b < length (ring ?b)" using fl len by simp
    then have "Events (Emit e ?b) = Events ?b @ [e]" using ok by (rule Events_Emit_room[rotated])
    with ev True show ?thesis by simp
  next
    case False
    then have "filled ?b = length (ring ?b)" using fl len by simp
    then have "Events (Emit e ?b) = tl (Events ?b) @ [e]" using ok by (rule Events_Emit_full[rotated])
    with ev False assms show ?thesis by (simp add: drop_Suc[symmetric] tl_drop Suc_diff_le)
  qed
  show ?case
    using ringOK_Emit[OF ok, of e] len fl ev' by (simp add: emitAll_snoc)
qed


declare pushThrough.simps [simp del]

lemma toIDs_eventWithID: "toIDs (map eventWithID ids) = ids"
  by (simp add: toIDs_def eventWithID_def comp_def)

lemma toIDs_drop: "toIDs (drop n es) = drop n (toIDs es)"
  by (simp add: toIDs_def drop_map)

lemma pushThrough_holds:
  assumes "0 < C"
  shows "i \<le> length elements \<Longrightarrow>
         b = emitAll (NewCircularBuffer C) (map eventWithID (take i elements)) \<Longrightarrow>
         pushThrough b C elements i"
proof (induction "length elements - i" arbitrary: i b)
  case 0
  then show ?case by (simp add: pushThrough.simps)
next
  case (Suc k)
  then have lt: "i < length elements" by simp
  let ?b' = "Emit (eventWithID (elements ! i)) b"
  have b': "?b' = emitAll (NewCircularBuffer C) (map eventWithID (take (i + 1) elements))"
    using lt Suc.prems(2) by (simp add: take_Suc_conv_app_nth emitAll_snoc)
  have "Events ?b' = drop (i + 1 - C) (map eventWithID (take (i + 1) elements))"
    using emitAll_invariant[OF assms, of "map eventWithID (take (i + 1) elements)"] lt b'
    by simp
  then have ids: "toIDs (Events ?b') = drop (i + 1 - C) (take (i + 1) elements)"
    by (simp add: toIDs_drop toIDs_eventWithID)
  have slice: "(if int i + 1 - int C < 0 then 0 else i + 1 - C) = i + 1 - C"
    by auto
  have "0 < i + 1 - (i + 1 - C)" "i + 1 - C < length elements"
    using lt assms by arith+
  then have "length (take (i + 1 - (i + 1 - C)) (drop (i + 1 - C) elements)) \<noteq> 0"
    by simp
  then have expect: "expectEvents ?b' (take (i + 1 - (i + 1 - C)) (drop (i + 1 - C) elements))"
    unfolding expectEvents_def using ids by (simp only: drop_take if_False)
  have rest: "pushThrough ?b' C elements (i + 1)"
    using Suc.hyps(1)[of "i + 1" ?b'] Suc.hyps(2) lt b' by simp
  have "pushThrough b C elements i =
          (expectEvents ?b' (take (i + 1 - (i + 1 - C)) (drop (i + 1 - C) elements)) \<and>
           pushThrough ?b' C elements (i + 1))"
    by (subst pushThrough.simps) (simp only: Let_def slice lt if_True)
  with expect rest show ?case by simp
qed

lemma listWithBuffer_holds: "0 < C \<Longrightarrow> listWithBuffer (NewCircularBuffer C) C n"
  using pushThrough_holds[of C 0 "makeIDs n" "NewCircularBuffer C"]
  by (simp add: listWithBuffer_def expectEvents_def emitAll_def Events_def NewCircularBuffer_def)

text \<open>
  C4. A buffer of any capacity \<open>C\<close> above zero (the test takes 1, 2, 3 and 4) starts
  empty, and after each of the emissions of any sequence of events (the test takes 100)
  its snapshot of current events is exactly the last \<open>min i C\<close> of the \<open>i\<close> events
  emitted so far, in emission order. In particular every expectation of
  \<^verbatim>\<open>listWithBuffer\<close> holds for every list size.
\<close>

theorem ring_holds_last_events:
  "0 < C \<longrightarrow>
     Events (NewCircularBuffer C) = [] \<and>
     (\<forall>i\<le>length es. Events (emitAll (NewCircularBuffer C) (take i es))
                        = drop (i - min i C) (take i es)) \<and>
     listWithBuffer (NewCircularBuffer C) C n"
proof (intro impI conjI allI)
  assume C: "0 < C"
  show "Events (NewCircularBuffer C) = []"
    by (simp add: Events_def NewCircularBuffer_def)
  show "listWithBuffer (NewCircularBuffer C) C n"
    using C by (rule listWithBuffer_holds)
  fix i assume "i \<le> length es"
  then have "length (take i es) - C = i - min i C" by auto
  then show "Events (emitAll (NewCircularBuffer C) (take i es)) = drop (i - min i C) (take i es)"
    using emitAll_invariant[OF C, of "take i es"] by simp
qed

text \<open>
  Witness for C4: capacity 3 and the 100 events of the test; after 2 emissions the
  buffer holds both events, after all 100 it holds the events 97, 98 and 99.
\<close>

theorem ring_holds_last_events_witness:
  "Events (NewCircularBuffer 3) = [] \<and>
   Events (emitAll (NewCircularBuffer 3) (take 100 (map eventWithID (makeIDs 100))))
     = [eventWithID 97, eventWithID 98, eventWithID 99] \<and>
   Events (emitAll (NewCircularBuffer 3) (take 2 (map eventWithID (makeIDs 100))))
     = [eventWithID 0, eventWithID 1] \<and>
   listWithBuffer (NewCircularBuffer 3) 3 100"
proof -
  have len: "length (map eventWithID (makeIDs 100)) = 100"
    by (simp add: makeIDs_def)
  note inst = ring_holds_last_events[of 3 "map eventWithID (makeIDs 100)" 100, simplified len]
  have a: "drop (100 - min 100 3) (take 100 (map eventWithID (makeIDs 100)))
            = [eventWithID 97, eventWithID 98, eventWithID 99]"
    unfolding makeIDs_def by code_simp
  have b: "drop (2 - min 2 3) (take 2 (map eventWithID (makeIDs 100)))
            = [eventWithID 0, eventWithID 1]"
    unfolding makeIDs_def by code_simp
  from inst have all: "\<forall>i\<le>100. Events (emitAll (NewCircularBuffer 3) (take i (map eventWithID (makeIDs 100))))
      = drop (i - min i 3) (take i (map eventWithID (makeIDs 100)))"
    and first: "Events (NewCircularBuffer 3) = []"
    and test: "listWithBuffer (NewCircularBuffer 3) 3 100"
    by simp_all
  from all have "Events (emitAll (NewCircularBuffer 3) (take 100 (map eventWithID (makeIDs 100))))
      = drop (100 - min 100 3) (take 100 (map eventWithID (makeIDs 100)))"
    by (rule allE[where x = 100]) simp
  moreover from all have "Events (emitAll (NewCircularBuffer 3) (take 2 (map eventWithID (makeIDs 100))))
      = drop (2 - min 2 3) (take 2 (map eventWithID (makeIDs 100)))"
    by (rule allE[where x = 2]) simp
  ultimately show ?thesis using a b first test by simp
qed

text \<open>
  C5. \<^verbatim>\<open>removeRedundantPrefixes\<close> returns, sorted, exactly the prefixes of its
  argument that no shorter prefix of the argument covers; on the four sets of the test
  it yields what the test expects.
\<close>

theorem removeRedundantPrefixes_drops_covered:
  "sorted (removeRedundantPrefixes ps) \<and>
   set (removeRedundantPrefixes ps) = {p \<in> set ps. \<not> (\<exists>q\<in>set ps. strict_prefix q p)} \<and>
   removeRedundantPrefixes [''/a/b'', ''/a'', ''/a/b/c'', ''/d''] = [''/a'', ''/d''] \<and>
   removeRedundantPrefixes [''/a'', ''/''] = [''/''] \<and>
   removeRedundantPrefixes [''/b'', ''/a''] = [''/a'', ''/b''] \<and>
   removeRedundantPrefixes [] = []"
proof (intro conjI)
  show "sorted (removeRedundantPrefixes ps)"
    by (simp add: removeRedundantPrefixes_def sorted_wrt_filter)
  show "set (removeRedundantPrefixes ps) = {p \<in> set ps. \<not> (\<exists>q\<in>set ps. strict_prefix q p)}"
    by (auto simp: removeRedundantPrefixes_def list_ex_iff)
  show "removeRedundantPrefixes [''/a/b'', ''/a'', ''/a/b/c'', ''/d''] = [''/a'', ''/d'']"
    unfolding removeRedundantPrefixes_def by code_simp
  show "removeRedundantPrefixes [''/a'', ''/''] = [''/'']"
    unfolding removeRedundantPrefixes_def by code_simp
  show "removeRedundantPrefixes [''/b'', ''/a''] = [''/a'', ''/b'']"
    unfolding removeRedundantPrefixes_def by code_simp
  show "removeRedundantPrefixes [] = []"
    by (simp add: removeRedundantPrefixes_def)
qed

text \<open>
  Witness for C5: of /a/b and /a only /a is left, since /a covers /a/b and nothing
  covers /a.
\<close>

theorem removeRedundantPrefixes_drops_covered_witness:
  "sorted (removeRedundantPrefixes [''/a/b'', ''/a'']) \<and>
   set (removeRedundantPrefixes [''/a/b'', ''/a'']) = {''/a''}"
proof -
  have "{p \<in> set [''/a/b'', ''/a'']. \<not> (\<exists>q\<in>set [''/a/b'', ''/a'']. strict_prefix q p)} = {''/a''}"
    by (auto simp: strict_prefix_def)
  with removeRedundantPrefixes_drops_covered[of "[''/a/b'', ''/a'']"] show ?thesis
    by simp
qed

section \<open>Properties of the database route check\<close>

text \<open>
  The model answers every case of the table of \<^verbatim>\<open>TestDBInfoHasChanged\<close> as the test
  expects, provided the selection of a database name is meaningful for the protocol of
  the two cases that differ in the name only.
\<close>

lemma TestDBInfoHasChanged_passes:
  "nameSelectable ''mongodb'' \<Longrightarrow> list_all (runTableCase nameSelectable) TestDBInfoHasChanged_table"
  by (simp add: TestDBInfoHasChanged_table_def runTableCase_def dbInfoHasChanged_def)



section \<open>Properties of the audit log\<close>

lemma fileDate_div: "fileDate t = 86400 * (t div 86400)"
  by (simp add: fileDate_def minus_mod_eq_mult_div)


lemma fileDate_mono: "a \<le> b \<Longrightarrow> fileDate a \<le> fileDate b"
  by (simp add: fileDate_div zdiv_mono1)



lemma contents_Emit:
  "contents (AuditLog_EmitAuditEvent event log) d =
     (if d = fileDate (Time event) then contents log d @ [event] else contents log d)"
  by (simp add: AuditLog_EmitAuditEvent_def contents_def Let_def)





lemma contents_New: "contents NewAuditLog d = []"
  by (simp add: contents_def NewAuditLog_def)


lemma search_outside:
  assumes "\<forall>d\<in>set (daysBetween a b). \<forall>e\<in>set (contents log d). \<not> (a \<le> Time e \<and> Time e \<le> b)"
  shows "SearchEvents log a b = []"
  using assms by (auto simp: SearchEvents_def filter_empty_conv)

lemma contents_Emit_New:
  "contents (AuditLog_EmitAuditEvent event NewAuditLog) d =
     (if d = fileDate (Time event) then [event] else [])"
  by (simp add: contents_Emit contents_New)






end
